theory Spec2Isabelle
  imports Main "HOL-Library.List_Lexorder"
begin

section \<open>Rows, responses and realtime payloads\<close>

text \<open>
  The rows of the generated database types (\<^verbatim>\<open>Tables<"matches">\<close>, \<^verbatim>\<open>Tables<"messages">\<close>).
  A column typed \<^verbatim>\<open>T | null\<close> is a \<open>T option\<close>. The \<^verbatim>\<open>id\<close> columns are typed \<^verbatim>\<open>number\<close>, but the
  page tests \<^verbatim>\<open>id != null\<close> on every row it receives, so an id is an \<open>int option\<close> here: \<open>None\<close>
  is a row that arrived without one. Field names carry the table as a prefix, since record
  fields are global names.
\<close>

record MatchRow =
  m_created_at :: "string option"
  m_end_at :: "string option"
  m_id :: "int option"
  m_start_at :: "string option"
  m_status :: "string option"
  m_user_a :: "string option"
  m_user_b :: "string option"
  m_venue_text :: "string option"

record MessageRow =
  msg_body :: string
  msg_id :: "int option"
  msg_match_id :: "int option"
  msg_sender_id :: "string option"
  msg_sent_at :: "string option"

text \<open>The columns \<^verbatim>\<open>fetchNextSlotsForUsers\<close> selects from \<^verbatim>\<open>availability_slots\<close>.\<close>

record SlotRow =
  s_user_id :: "string option"
  s_start_at :: string
  s_end_at :: string
  s_area_code :: "string option"
  s_venue_hint :: "string option"

record PublicSlot =
  ps_user_id :: string
  ps_start_at :: string
  ps_end_at :: string
  ps_area_code :: "string option"
  ps_venue_hint :: "string option"

text \<open>
  What an awaited query resolves to: \<^verbatim>\<open>{ data, error }\<close>. An error is an object, so
  \<^verbatim>\<open>!error\<close> holds exactly when it is \<open>None\<close>; \<^verbatim>\<open>data\<close> is an array or a row, truthy exactly
  when it is not \<open>None\<close>.
\<close>

datatype PostgrestError = PostgrestError string

record 'a PostgrestResponse =
  res_data :: "'a option"
  res_error :: "PostgrestError option"

datatype EventType = INSERT | UPDATE | DELETE

record 'r RealtimePayload =
  eventType :: EventType
  payload_new :: "'r option"
  payload_old :: "'r option"

text \<open>The backend calls the page issues; the page state keeps their trace.\<close>

datatype Request =
    SelectMessages int
  | SelectMatches string
  | SelectNextSlots "string list"
  | InsertMessage int string string
  | UpdateMatchStatus int "string option"

text \<open>The texts the page shows: \<^verbatim>\<open>setMsg\<close> and \<^verbatim>\<open>toast.error\<close>.\<close>

datatype Notice =
    StatusUpdated "string option"
  | StatusUpdateFailed PostgrestError
  | SendFailed PostgrestError
  | RespondNotAllowed

record PageState =
  matches :: "MatchRow list"
  messages :: "MessageRow list"
  messageIdsRef :: "string set"
  activeMatchId :: "int option"
  chatBody :: string
  nextSlotMap :: "string \<rightharpoonup> PublicSlot option"
  loadingNextSlots :: bool
  busy :: bool
  msg :: "Notice option"
  toasts :: "Notice list"
  requests :: "Request list"

section \<open>Helpers of the runtime\<close>

text \<open>
  \<^verbatim>\<open>String(n)\<close> for an integer id: its decimal numeral (ids are integers in the range
  where the runtime prints every digit).
\<close>

fun digitsOf :: "nat \<Rightarrow> string" where
  "digitsOf n =
     (if n < 10 then [char_of (48 + n)]
      else digitsOf (n div 10) @ [char_of (48 + n mod 10)])"

declare digitsOf.simps [simp del]

definition String_num :: "int \<Rightarrow> string" where
  "String_num i = (if i < 0 then CHR ''-'' # digitsOf (nat (- i)) else digitsOf (nat i))"

text \<open>Truthiness of a \<^verbatim>\<open>string | null\<close>: null and the empty string are falsy.\<close>

fun truthy :: "string option \<Rightarrow> bool" where
  "truthy None = False"
| "truthy (Some s) = (s \<noteq> [])"

text \<open>\<^verbatim>\<open>x == null\<close> on a looked-up property: true for a missing key and for null.\<close>

fun isNullish :: "'a option option \<Rightarrow> bool" where
  "isNullish None = True"
| "isNullish (Some None) = True"
| "isNullish (Some (Some v)) = False"

text \<open>
  \<^verbatim>\<open>xs.sort((a, b) => (a.start_at ?? "").localeCompare(b.start_at ?? ""))\<close>. The collation
  of \<^verbatim>\<open>localeCompare\<close> belongs to the runtime; it is the parameter \<open>ckey\<close>, the collation key
  of a string: \<^verbatim>\<open>a.localeCompare(b) <= 0\<close> exactly when \<open>ckey a \<le> ckey b\<close>. \<open>keyOf\<close> is the
  key of a nullable column, null read as the empty string. The sort of the runtime is
  stable, as \<open>sort_key\<close> is.
\<close>

definition keyOf :: "(string \<Rightarrow> 'k) \<Rightarrow> string option \<Rightarrow> 'k" where
  "keyOf ckey t = ckey (case t of None \<Rightarrow> [] | Some s \<Rightarrow> s)"

definition startKey :: "(string \<Rightarrow> 'k) \<Rightarrow> MatchRow \<Rightarrow> 'k" where
  "startKey ckey m = keyOf ckey (m_start_at m)"

definition sortByStartAt :: "(string \<Rightarrow> 'k::linorder) \<Rightarrow> MatchRow list \<Rightarrow> MatchRow list" where
  "sortByStartAt ckey xs = sort_key (startKey ckey) xs"

text \<open>
  The page never compares two \<^verbatim>\<open>sent_at\<close>; the order of the messages is the order of the
  backend's query. \<open>okey\<close> is the key that order compares \<^verbatim>\<open>sent_at\<close> by.
\<close>

definition sentKey :: "(string option \<Rightarrow> 'k) \<Rightarrow> MessageRow \<Rightarrow> 'k" where
  "sentKey okey m = okey (msg_sent_at m)"

text \<open>
  A collation to run examples with: the code units of the string, compared
  lexicographically. On timestamps of one format it orders as \<^verbatim>\<open>localeCompare\<close> does.
\<close>

definition codeUnits :: "string \<Rightarrow> nat list" where
  "codeUnits s = map of_char s"

section \<open>Messages of the open chat\<close>

text \<open>The loop of \<^verbatim>\<open>fetchMessages\<close> that rebuilds the id set from the fetched rows.\<close>

fun collectIds :: "MessageRow list \<Rightarrow> string set \<Rightarrow> string set" where
  "collectIds [] ids = ids"
| "collectIds (m # ms) ids =
     (case msg_id m of
        None \<Rightarrow> collectIds ms ids
      | Some i \<Rightarrow> collectIds ms (insert (String_num i) ids))"

definition fetchMessages ::
  "int \<Rightarrow> MessageRow list PostgrestResponse \<Rightarrow> PageState \<Rightarrow> PageState" where
  "fetchMessages matchId res st =
     (let st1 = st\<lparr>requests := requests st @ [SelectMessages matchId]\<rparr> in
      case res_error res of
        Some e \<Rightarrow> st1
      | None \<Rightarrow>
          (case res_data res of
             None \<Rightarrow> st1
           | Some rows \<Rightarrow> st1\<lparr>messages := rows, messageIdsRef := collectIds rows {}\<rparr>))"

text \<open>
  The callback \<^verbatim>\<open>openChat\<close> registers for INSERT events on the messages of the match;
  its argument is \<^verbatim>\<open>payload.new\<close>. \<open>has\<close> and \<open>add\<close> are the methods of the id set, on
  the \<^verbatim>\<open>string | null\<close> the callback computes.
\<close>

definition has :: "string set \<Rightarrow> string option \<Rightarrow> bool" where
  "has ids key = (case key of None \<Rightarrow> False | Some s \<Rightarrow> s \<in> ids)"

definition add :: "string option \<Rightarrow> string set \<Rightarrow> string set" where
  "add key ids = (case key of None \<Rightarrow> ids | Some s \<Rightarrow> insert s ids)"

definition chatInsertCallback :: "MessageRow option \<Rightarrow> PageState \<Rightarrow> PageState" where
  "chatInsertCallback payloadNew st =
     (case payloadNew of
        None \<Rightarrow> st
      | Some row \<Rightarrow>
          (let rid = (case msg_id row of None \<Rightarrow> None | Some i \<Rightarrow> Some (String_num i)) in
           if \<not> truthy rid \<or> \<not> has (messageIdsRef st) rid then
             st\<lparr>messageIdsRef :=
                  (if truthy rid then add rid (messageIdsRef st) else messageIdsRef st),
                messages := messages st @ [row]\<rparr>
           else st))"

text \<open>
  \<^verbatim>\<open>openChat\<close>: select the match, clear the input, fetch the log. (The subscription it
  then opens delivers its events to \<open>chatInsertCallback\<close>.)
\<close>

definition openChat ::
  "int \<Rightarrow> MessageRow list PostgrestResponse \<Rightarrow> PageState \<Rightarrow> PageState" where
  "openChat matchId res st =
     fetchMessages matchId res (st\<lparr>activeMatchId := Some matchId, chatBody := []\<rparr>)"

text \<open>
  \<^verbatim>\<open>trim\<close> on the characters a \<open>string\<close> here can hold (code points below 256): of the
  white space and line terminators \<^verbatim>\<open>trim\<close> strips, these are tab, line feed, vertical tab,
  form feed, carriage return, space and the no-break space.
\<close>

definition isSpace :: "char \<Rightarrow> bool" where
  "isSpace c =
     (c \<in> set [CHR 0x09, CHR 0x0A, CHR 0x0B, CHR 0x0C, CHR 0x0D, CHR '' '', CHR 0xA0])"

definition trim :: "string \<Rightarrow> string" where
  "trim s = rev (dropWhile isSpace (rev (dropWhile isSpace s)))"

text \<open>
  \<^verbatim>\<open>handleSendMessage\<close>; \<open>res\<close> is what the insert resolves to. The returned row is
  appended whether or not its id is in the set.
\<close>

definition handleSendMessage ::
  "string option \<Rightarrow> MessageRow PostgrestResponse \<Rightarrow> PageState \<Rightarrow> PageState" where
  "handleSendMessage userId res st =
     (case (userId, activeMatchId st) of
        (Some uid, Some mid) \<Rightarrow>
          if uid = [] then st
          else
            (let body = trim (chatBody st) in
             if body = [] then st
             else
               (let st1 = st\<lparr>busy := True, requests := requests st @ [InsertMessage mid uid body]\<rparr> in
                case res_error res of
                  Some e \<Rightarrow> st1\<lparr>msg := Some (SendFailed e), busy := False\<rparr>
                | None \<Rightarrow>
                    (case res_data res of
                       None \<Rightarrow> st1\<lparr>chatBody := [], busy := False\<rparr>
                     | Some row \<Rightarrow>
                         st1\<lparr>messageIdsRef :=
                               (case msg_id row of
                                  None \<Rightarrow> messageIdsRef st1
                                | Some i \<Rightarrow> add (Some (String_num i)) (messageIdsRef st1)),
                             messages := messages st1 @ [row],
                             chatBody := [],
                             busy := False\<rparr>)))
      | _ \<Rightarrow> st)"

section \<open>The matches list\<close>

text \<open>\<^verbatim>\<open>fetchMatches\<close>: the rows with \<^verbatim>\<open>user_a\<close> or \<^verbatim>\<open>user_b\<close> equal to \<open>uid\<close>, ascending by \<^verbatim>\<open>start_at\<close>.\<close>

definition fetchMatches ::
  "string \<Rightarrow> MatchRow list PostgrestResponse \<Rightarrow> PageState \<Rightarrow> PageState" where
  "fetchMatches uid res st =
     (let st1 = st\<lparr>requests := requests st @ [SelectMatches uid]\<rparr> in
      case res_error res of
        Some e \<Rightarrow> st1
      | None \<Rightarrow>
          (case res_data res of
             None \<Rightarrow> st1
           | Some rows \<Rightarrow> st1\<lparr>matches := rows\<rparr>))"

text \<open>
  The update \<^verbatim>\<open>handleProposeMatch\<close> applies once its insert has returned the row:
  \<^verbatim>\<open>setMatches((prev) => [...prev, data].sort(...))\<close>.
\<close>

definition proposeAppend ::
  "(string \<Rightarrow> 'k::linorder) \<Rightarrow> MatchRow \<Rightarrow> MatchRow list \<Rightarrow> MatchRow list" where
  "proposeAppend ckey row prev = sortByStartAt ckey (prev @ [row])"

text \<open>
  The object \<^verbatim>\<open>{}\<close> read as a match row: every column is undefined. It is what the realtime
  client hands over as \<^verbatim>\<open>payload.new\<close> of a DELETE event (the deleted row is \<^verbatim>\<open>payload.old\<close>).
\<close>

definition emptyRow :: MatchRow where
  "emptyRow =
     \<lparr>m_created_at = None, m_end_at = None, m_id = None, m_start_at = None, m_status = None,
      m_user_a = None, m_user_b = None, m_venue_text = None\<rparr>"

definition involvesMe :: "string \<Rightarrow> MatchRow \<Rightarrow> bool" where
  "involvesMe uid row = (m_user_a row = Some uid \<or> m_user_b row = Some uid)"

text \<open>
  The callback of the matches channel (every event of the table, no filter). \<open>uid\<close> is
  \<^verbatim>\<open>user.id\<close>; the result is the list \<^verbatim>\<open>setMatches\<close> is given, or the list as it was
  when the callback returns early.
\<close>

definition matchesCallback ::
  "(string \<Rightarrow> 'k::linorder) \<Rightarrow> string \<Rightarrow> MatchRow RealtimePayload \<Rightarrow> MatchRow list \<Rightarrow>
     MatchRow list" where
  "matchesCallback ckey uid payload prev =
     (let rowNew = payload_new payload;
          rowOld = payload_old payload;
          row = (case rowNew of Some r \<Rightarrow> Some r | None \<Rightarrow> rowOld) in
      case row of
        None \<Rightarrow> prev
      | Some r \<Rightarrow>
          if \<not> involvesMe uid r then prev
          else
            sortByStartAt ckey
              (case eventType payload of
                 INSERT \<Rightarrow>
                   (case rowNew of
                      Some rn \<Rightarrow>
                        if \<not> list_ex (\<lambda>m. m_id m = m_id rn) prev then prev @ [rn] else prev
                    | None \<Rightarrow> prev)
               | UPDATE \<Rightarrow>
                   (case rowNew of
                      Some rn \<Rightarrow> map (\<lambda>m. if m_id m = m_id rn then rn else m) prev
                    | None \<Rightarrow> prev)
               | DELETE \<Rightarrow>
                   (case rowOld of
                      Some ro \<Rightarrow> filter (\<lambda>m. m_id m \<noteq> m_id ro) prev
                    | None \<Rightarrow> prev)))"

section \<open>Responding to a proposal\<close>

text \<open>
  \<^verbatim>\<open>handleMatchStatus\<close>: \<open>user\<close> is the id of the signed-in user, \<open>None\<close> when nobody is
  signed in; \<open>res\<close> is what the update resolves to.
\<close>

definition handleMatchStatus ::
  "string option \<Rightarrow> int option \<Rightarrow> string option \<Rightarrow> MatchRow PostgrestResponse \<Rightarrow>
     PageState \<Rightarrow> PageState" where
  "handleMatchStatus user matchId status res st =
     (case (user, matchId) of
        (Some u, Some mid) \<Rightarrow>
          (let st1 = st\<lparr>busy := True, msg := None,
                        requests := requests st @ [UpdateMatchStatus mid status]\<rparr> in
           case res_error res of
             Some e \<Rightarrow> st1\<lparr>msg := Some (StatusUpdateFailed e), busy := False\<rparr>
           | None \<Rightarrow>
               (case res_data res of
                  None \<Rightarrow> st1\<lparr>busy := False\<rparr>
                | Some row \<Rightarrow>
                    st1\<lparr>matches := map (\<lambda>m. if m_id m = matchId then row else m) (matches st1),
                        msg := Some (StatusUpdated status),
                        busy := False\<rparr>))
      | _ \<Rightarrow> st)"

text \<open>\<^verbatim>\<open>me\<close> is \<^verbatim>\<open>user?.id\<close>.\<close>

definition isReceiver :: "string option \<Rightarrow> MatchRow \<Rightarrow> bool" where
  "isReceiver me m = (truthy me \<and> m_user_b m = me)"

definition canRespond :: "string option \<Rightarrow> MatchRow \<Rightarrow> bool" where
  "canRespond me m = (isReceiver me m \<and> m_status m = Some ''pending'')"

text \<open>The two answers \<^verbatim>\<open>respondMatch\<close> accepts: \<^verbatim>\<open>"confirmed" | "cancelled"\<close>.\<close>

datatype Answer = Confirmed | Cancelled

fun answerText :: "Answer \<Rightarrow> string" where
  "answerText Confirmed = ''confirmed''"
| "answerText Cancelled = ''cancelled''"

definition respondMatch ::
  "string option \<Rightarrow> MatchRow \<Rightarrow> Answer \<Rightarrow> MatchRow PostgrestResponse \<Rightarrow> PageState \<Rightarrow>
     PageState" where
  "respondMatch me m nxt res st =
     (if \<not> canRespond me m then st\<lparr>toasts := toasts st @ [RespondNotAllowed]\<rparr>
      else handleMatchStatus me (m_id m) (Some (answerText nxt)) res st)"

text \<open>
  The answer buttons of a row of the matches table on this page: rendered for the row \<open>m\<close>
  of the list when \<^verbatim>\<open>canRespond(m)\<close>, disabled when \<^verbatim>\<open>busy || m.id == null\<close>, bound to
  \<^verbatim>\<open>respondMatch(m, next)\<close>. \<open>i\<close> is the position of the row in the list; a click on a
  button that is not there or is disabled does nothing.
\<close>

definition respondButtonClick ::
  "string option \<Rightarrow> nat \<Rightarrow> Answer \<Rightarrow> MatchRow PostgrestResponse \<Rightarrow> PageState \<Rightarrow>
     PageState" where
  "respondButtonClick me i nxt res st =
     (if i < length (matches st) then
        (let m = matches st ! i in
         if canRespond me m \<and> \<not> (busy st \<or> m_id m = None) then respondMatch me m nxt res st
         else st)
      else st)"

text \<open>
  The same buttons on the two older copies of the page (\<^verbatim>\<open>part_000\<close> and \<^verbatim>\<open>app/page.tsx\<close>),
  which have no \<^verbatim>\<open>canRespond\<close> and no \<^verbatim>\<open>respondMatch\<close>: rendered when
  \<^verbatim>\<open>m.status === "pending"\<close>, disabled when \<^verbatim>\<open>busy || m.id == null\<close>, bound to
  \<^verbatim>\<open>handleMatchStatus(m.id!, next)\<close>. Their \<^verbatim>\<open>handleMatchStatus\<close> is the one above.
\<close>

definition statusButtonClick ::
  "string option \<Rightarrow> nat \<Rightarrow> Answer \<Rightarrow> MatchRow PostgrestResponse \<Rightarrow> PageState \<Rightarrow>
     PageState" where
  "statusButtonClick user i nxt res st =
     (if i < length (matches st) then
        (let m = matches st ! i in
         if m_status m = Some ''pending'' \<and> \<not> (busy st \<or> m_id m = None) then
           handleMatchStatus user (m_id m) (Some (answerText nxt)) res st
         else st)
      else st)"

section \<open>The next slot of every listed user\<close>

text \<open>\<^verbatim>\<open>Object.fromEntries\<close>: a later entry of a key replaces an earlier one.\<close>

fun fromEntriesInto :: "(string \<times> 'v) list \<Rightarrow> (string \<rightharpoonup> 'v) \<Rightarrow> (string \<rightharpoonup> 'v)" where
  "fromEntriesInto [] mp = mp"
| "fromEntriesInto (kv # kvs) mp = fromEntriesInto kvs (mp(fst kv \<mapsto> snd kv))"

definition fromEntries :: "(string \<times> 'v) list \<Rightarrow> (string \<rightharpoonup> 'v)" where
  "fromEntries kvs = fromEntriesInto kvs Map.empty"

definition toPublicSlot :: "string \<Rightarrow> SlotRow \<Rightarrow> PublicSlot" where
  "toPublicSlot uid row =
     \<lparr>ps_user_id = uid, ps_start_at = s_start_at row, ps_end_at = s_end_at row,
      ps_area_code = s_area_code row, ps_venue_hint = s_venue_hint row\<rparr>"

text \<open>
  The loop over the fetched rows. \<^verbatim>\<open>map[uid] == null\<close> reads the map's own keys (no user
  id names a member of \<^verbatim>\<open>Object.prototype\<close>).
\<close>

fun nextSlotLoop ::
  "SlotRow list \<Rightarrow> (string \<rightharpoonup> PublicSlot option) \<Rightarrow> (string \<rightharpoonup> PublicSlot option)" where
  "nextSlotLoop [] mp = mp"
| "nextSlotLoop (row # rows) mp =
     (let uid = s_user_id row in
      if \<not> truthy uid then nextSlotLoop rows mp
      else
        (case uid of
           None \<Rightarrow> nextSlotLoop rows mp
         | Some u \<Rightarrow>
             if isNullish (mp u) then nextSlotLoop rows (mp(u \<mapsto> Some (toPublicSlot u row)))
             else nextSlotLoop rows mp))"

definition fetchNextSlotsForUsers ::
  "string list \<Rightarrow> SlotRow list PostgrestResponse \<Rightarrow> PageState \<Rightarrow> PageState" where
  "fetchNextSlotsForUsers userIds res st =
     (let st0 = st\<lparr>loadingNextSlots := True\<rparr> in
      if userIds = [] then st0\<lparr>nextSlotMap := Map.empty, loadingNextSlots := False\<rparr>
      else
        (let st1 = st0\<lparr>requests := requests st0 @ [SelectNextSlots userIds]\<rparr> in
         case res_error res of
           Some e \<Rightarrow> st1\<lparr>loadingNextSlots := False\<rparr>
         | None \<Rightarrow>
             (let rows = (case res_data res of None \<Rightarrow> [] | Some d \<Rightarrow> d);
                  mp = fromEntries (map (\<lambda>u. (u, None)) userIds) in
              st1\<lparr>nextSlotMap := nextSlotLoop rows mp, loadingNextSlots := False\<rparr>)))"

section \<open>Overlap of two time ranges\<close>

text \<open>
  \<^verbatim>\<open>new Date(s).getTime()\<close> is the parameter \<open>getTime\<close>: the milliseconds of the instant, or
  \<open>None\<close> for NaN (a string that is no date). \<open>numLess\<close> is \<^verbatim>\<open><\<close> on such numbers: false
  as soon as one side is NaN.
\<close>

fun numLess :: "int option \<Rightarrow> int option \<Rightarrow> bool" where
  "numLess (Some x) (Some y) = (x < y)"
| "numLess _ _ = False"

definition hasOverlap ::
  "(string \<Rightarrow> int option) \<Rightarrow> string \<Rightarrow> string \<Rightarrow> string \<Rightarrow> string \<Rightarrow> bool" where
  "hasOverlap getTime aStart aEnd bStart bEnd =
     (numLess (getTime aStart) (getTime bEnd) \<and> numLess (getTime bStart) (getTime aEnd))"

text \<open>
  A clock to run examples with: three instants of 1 January 2025 (UTC) with their
  milliseconds since the epoch; every other string is no date.
\<close>

definition sampleTime :: "string \<Rightarrow> int option" where
  "sampleTime s =
     map_of [(''2025-01-01T00:00:00Z'', 1735689600000),
             (''2025-01-01T01:00:00Z'', 1735693200000),
             (''2025-01-01T02:00:00Z'', 1735696800000)] s"

section \<open>Example rows and states\<close>

definition msgRow :: "int option \<Rightarrow> string \<Rightarrow> MessageRow" where
  "msgRow i t =
     \<lparr>msg_body = ''hi'', msg_id = i, msg_match_id = Some 1, msg_sender_id = Some ''u1'',
      msg_sent_at = Some t\<rparr>"

definition matchRow ::
  "int \<Rightarrow> string option \<Rightarrow> string option \<Rightarrow> string option \<Rightarrow> string \<Rightarrow> MatchRow" where
  "matchRow i t a b s =
     \<lparr>m_created_at = None, m_end_at = None, m_id = Some i, m_start_at = t, m_status = Some s,
      m_user_a = a, m_user_b = b, m_venue_text = None\<rparr>"

definition slotRow :: "string option \<Rightarrow> string \<Rightarrow> SlotRow" where
  "slotRow u t =
     \<lparr>s_user_id = u, s_start_at = t, s_end_at = ''2025-01-01T02:00:00Z'', s_area_code = None,
      s_venue_hint = None\<rparr>"

text \<open>A page with the chat of match 1 open, nothing loaded yet and \<^verbatim>\<open>hi\<close> typed.\<close>

definition chat0 :: PageState where
  "chat0 =
     \<lparr>matches = [], messages = [], messageIdsRef = {}, activeMatchId = Some 1,
      chatBody = ''hi'', nextSlotMap = Map.empty, loadingNextSlots = False, busy = False,
      msg = None, toasts = [], requests = []\<rparr>"

definition ok :: "'a \<Rightarrow> 'a PostgrestResponse" where
  "ok d = \<lparr>res_data = Some d, res_error = None\<rparr>"

definition failed :: "string \<Rightarrow> 'a PostgrestResponse" where
  "failed e = \<lparr>res_data = None, res_error = Some (PostgrestError e)\<rparr>"

section \<open>Facts about the helpers\<close>

lemma digitsOf_nonempty: "digitsOf n \<noteq> []"
  by (subst digitsOf.simps) simp

lemma String_num_nonempty: "String_num i \<noteq> []"
  by (simp add: String_num_def digitsOf_nonempty)

lemma String_num_1: "String_num 1 = ''1''"
  by code_simp

lemma String_num_2: "String_num 2 = ''2''"
  by code_simp

lemma trim_hi: "trim ''hi'' = ''hi''"
  by (simp add: trim_def isSpace_def)

lemma collectIds_eq:
  "collectIds rows ids = ids \<union> String_num ` {i. Some i \<in> msg_id ` set rows}"
  by (induction rows arbitrary: ids) (auto split: option.splits)

lemma sorted_sortByStartAt: "sorted (map (startKey ckey) (sortByStartAt ckey xs))"
  by (simp add: sortByStartAt_def)


lemma set_sortByStartAt: "set (sortByStartAt ckey xs) = set xs"
  by (simp add: sortByStartAt_def)

section \<open>Deduplication of chat messages\<close>

lemma chatInsert_fresh:
  assumes "msg_id row = Some i" and "String_num i \<notin> messageIdsRef st"
  shows "chatInsertCallback (Some row) st =
           st\<lparr>messageIdsRef := insert (String_num i) (messageIdsRef st),
              messages := messages st @ [row]\<rparr>"
  using assms by (simp add: chatInsertCallback_def has_def add_def String_num_nonempty)

lemma chatInsert_seen:
  assumes "msg_id row = Some i" and "String_num i \<in> messageIdsRef st"
  shows "chatInsertCallback (Some row) st = st"
  using assms by (simp add: chatInsertCallback_def has_def add_def String_num_nonempty)

lemma handleSend_ok:
  assumes "activeMatchId st = Some mid" and "uid \<noteq> []" and "trim (chatBody st) \<noteq> []"
    and "msg_id row = Some i"
  shows "handleSendMessage (Some uid) \<lparr>res_data = Some row, res_error = None\<rparr> st =
           st\<lparr>busy := False,
              requests := requests st @ [InsertMessage mid uid (trim (chatBody st))],
              messageIdsRef := insert (String_num i) (messageIdsRef st),
              messages := messages st @ [row],
              chatBody := []\<rparr>"
  using assms by (simp add: handleSendMessage_def add_def Let_def)

text \<open>
  When the insert returns before the notification of the same row, the notification
  finds the id in the set and the row is shown once.
\<close>

lemma local_then_remote_once:
  assumes "activeMatchId st = Some mid" and "uid \<noteq> []" and "trim (chatBody st) \<noteq> []"
    and "msg_id row = Some i"
  shows "messages (chatInsertCallback (Some row)
            (handleSendMessage (Some uid) \<lparr>res_data = Some row, res_error = None\<rparr> st)) =
         messages st @ [row]"
  using assms by (simp add: chatInsert_seen handleSend_ok)

text \<open>
  Claim C1 (the same row through the local append and the remote INSERT notification is
  shown exactly once, in either order): the order in which the notification runs first
  breaks it. The notification appends the row and records its id; \<^verbatim>\<open>handleSendMessage\<close>
  then appends the row it got back without looking the id up, so the messages end with
  the row twice.
\<close>

theorem remote_then_local_duplicates:
  assumes "activeMatchId st = Some mid" and "uid \<noteq> []" and "trim (chatBody st) \<noteq> []"
    and "msg_id row = Some i" and "String_num i \<notin> messageIdsRef st"
  shows "messages (handleSendMessage (Some uid) \<lparr>res_data = Some row, res_error = None\<rparr>
                    (chatInsertCallback (Some row) st)) = messages st @ [row, row]"
  using assms by (simp add: chatInsert_fresh handleSend_ok)

theorem remote_then_local_duplicates_witness:
  "map msg_id (messages (handleSendMessage (Some ''u1'')
       \<lparr>res_data = Some (msgRow (Some 7) ''2025-01-01T00:00:00Z''), res_error = None\<rparr>
       (chatInsertCallback (Some (msgRow (Some 7) ''2025-01-01T00:00:00Z'')) chat0))) =
     [Some 7, Some 7]"
  using remote_then_local_duplicates
    [of chat0 1 "''u1''" "msgRow (Some 7) ''2025-01-01T00:00:00Z''" 7]
  by (simp add: chat0_def msgRow_def trim_hi)

section \<open>Notifications without an id\<close>

text \<open>
  Claim C3 as stated (an INSERT notification whose row has no id changes neither the
  messages nor the id set) fails: on the page of \<open>chat0\<close> such a row is shown.
\<close>

theorem insert_without_id_counterexample:
  "messages (chatInsertCallback (Some (msgRow None ''2025-01-01T00:00:00Z'')) chat0) \<noteq>
     messages chat0"
  by (simp add: chatInsertCallback_def chat0_def msgRow_def)

text \<open>
  Claim C3, amended: an INSERT notification whose row has no id is appended to the end of
  the messages and leaves the id set as it is (no other part of the state changes); a
  notification with no row at all leaves the whole state as it is.
\<close>

theorem insert_without_id_is_appended:
  assumes "msg_id row = None"
  shows "chatInsertCallback (Some row) st = st\<lparr>messages := messages st @ [row]\<rparr> \<and>
         chatInsertCallback None st = st"
  using assms by (simp add: chatInsertCallback_def)

theorem insert_without_id_is_appended_witness:
  "messages (chatInsertCallback (Some (msgRow None ''2025-01-01T00:00:00Z'')) chat0) =
     [msgRow None ''2025-01-01T00:00:00Z''] \<and>
   messageIdsRef (chatInsertCallback (Some (msgRow None ''2025-01-01T00:00:00Z'')) chat0) = {} \<and>
   chatInsertCallback None chat0 = chat0"
  using insert_without_id_is_appended [of "msgRow None ''2025-01-01T00:00:00Z''" chat0]
  by (simp add: chat0_def msgRow_def)

section \<open>The initial fetch\<close>

text \<open>
  Claim C4 as stated (after a successful \<^verbatim>\<open>fetchMessages\<close> the messages are the fetched rows
  sorted ascending by \<^verbatim>\<open>sent_at\<close>) fails for a snapshot that does not come in that order:
  \<^verbatim>\<open>fetchMessages\<close> stores the rows as they are and sorts nothing.
\<close>

theorem fetchMessages_unsorted_counterexample:
  "messages (fetchMessages 1
      (ok [msgRow (Some 1) ''2025-01-01T01:00:00Z'', msgRow (Some 2) ''2025-01-01T00:00:00Z''])
      chat0) \<noteq>
     sort_key (sentKey (keyOf codeUnits))
       [msgRow (Some 1) ''2025-01-01T01:00:00Z'', msgRow (Some 2) ''2025-01-01T00:00:00Z'']"
  by (simp add: fetchMessages_def ok_def chat0_def msgRow_def sentKey_def keyOf_def
      codeUnits_def)

text \<open>
  Claim C4, amended: after a successful \<^verbatim>\<open>fetchMessages\<close> the messages are the fetched rows
  in the order the query returned them, which is the rows sorted ascending by \<^verbatim>\<open>sent_at\<close>
  exactly when they were returned in that order; and the id set is exactly the set of the
  ids, as strings, of the rows that have one.
\<close>

theorem fetchMessages_stores_snapshot:
  fixes okey :: "string option \<Rightarrow> 'k::linorder"
  assumes "res_error res = None" and "res_data res = Some rows"
  shows "messages (fetchMessages matchId res st) = rows \<and>
         messageIdsRef (fetchMessages matchId res st) =
           String_num ` {i. Some i \<in> msg_id ` set rows} \<and>
         (messages (fetchMessages matchId res st) = sort_key (sentKey okey) rows) =
           sorted (map (sentKey okey) rows)"
proof -
  have m: "messages (fetchMessages matchId res st) = rows"
    and i: "messageIdsRef (fetchMessages matchId res st) =
           String_num ` {i. Some i \<in> msg_id ` set rows}"
    using assms by (simp_all add: fetchMessages_def collectIds_eq)
  have "sorted (map (sentKey okey) rows)" if "rows = sort_key (sentKey okey) rows"
  proof -
    have "sorted (map (sentKey okey) (sort_key (sentKey okey) rows))" by simp
    then show ?thesis using that by simp
  qed
  then have "(rows = sort_key (sentKey okey) rows) = sorted (map (sentKey okey) rows)"
    using sort_key_id_if_sorted [of "sentKey okey" rows] by auto
  then show ?thesis using m i by simp
qed

theorem fetchMessages_stores_snapshot_witness:
  "messages (fetchMessages 1
      (ok [msgRow (Some 1) ''2025-01-01T01:00:00Z'', msgRow (Some 2) ''2025-01-01T00:00:00Z''])
      (chat0\<lparr>messages := [msgRow (Some 7) ''2025-01-01T02:00:00Z''], messageIdsRef := {''7''}\<rparr>)) =
     [msgRow (Some 1) ''2025-01-01T01:00:00Z'', msgRow (Some 2) ''2025-01-01T00:00:00Z''] \<and>
   messageIdsRef (fetchMessages 1
      (ok [msgRow (Some 1) ''2025-01-01T01:00:00Z'', msgRow (Some 2) ''2025-01-01T00:00:00Z''])
      (chat0\<lparr>messages := [msgRow (Some 7) ''2025-01-01T02:00:00Z''], messageIdsRef := {''7''}\<rparr>)) =
     {''1'', ''2''}"
proof -
  let ?rows = "[msgRow (Some 1) ''2025-01-01T01:00:00Z'', msgRow (Some 2) ''2025-01-01T00:00:00Z'']"
  let ?st = "chat0\<lparr>messages := [msgRow (Some 7) ''2025-01-01T02:00:00Z''], messageIdsRef := {''7''}\<rparr>"
  have e: "res_error (ok ?rows) = None" and d: "res_data (ok ?rows) = Some ?rows"
    by (simp_all add: ok_def)
  have "{i. Some i \<in> msg_id ` set ?rows} = {1, 2}"
    by (auto simp: msgRow_def)
  then have i: "String_num ` {i. Some i \<in> msg_id ` set ?rows} = {''1'', ''2''}"
    by (simp add: String_num_1 String_num_2)
  from fetchMessages_stores_snapshot [OF e d, of 1 ?st "keyOf codeUnits"]
  have "messages (fetchMessages 1 (ok ?rows) ?st) = ?rows"
    and "messageIdsRef (fetchMessages 1 (ok ?rows) ?st) =
           String_num ` {i. Some i \<in> msg_id ` set ?rows}"
    by blast+
  then show ?thesis by (simp only: i)
qed

text \<open>
  Claim C6: when the fetch fails, \<^verbatim>\<open>fetchMessages\<close> and \<^verbatim>\<open>fetchMatches\<close> leave the state as it
  was (messages, id set and matches included) and have issued their one query, no second
  one.
\<close>

theorem failed_fetch_keeps_state:
  assumes "res_error res = Some e" and "res_error res' = Some e'"
  shows "fetchMessages matchId res st = st\<lparr>requests := requests st @ [SelectMessages matchId]\<rparr> \<and>
         fetchMatches uid res' st = st\<lparr>requests := requests st @ [SelectMatches uid]\<rparr>"
  using assms by (simp add: fetchMessages_def fetchMatches_def)

theorem failed_fetch_keeps_state_witness:
  "fetchMessages 1 (failed ''offline'') chat0 = chat0\<lparr>requests := [SelectMessages 1]\<rparr> \<and>
   fetchMatches ''u1'' (failed ''offline'') chat0 = chat0\<lparr>requests := [SelectMatches ''u1'']\<rparr>"
  using failed_fetch_keeps_state [of "failed ''offline''" "PostgrestError ''offline''"
      "failed ''offline''" "PostgrestError ''offline''" 1 chat0 "''u1''"]
  by (simp add: failed_def chat0_def)

section \<open>Who may answer a proposal\<close>

text \<open>
  \<^verbatim>\<open>handleMatchStatus\<close> itself asks nothing about the match: for a signed-in user and a
  match id it issues the update, whatever the status and whoever the user.
\<close>

lemma handleMatchStatus_unguarded:
  "requests (handleMatchStatus (Some u) (Some mid) status res st) =
     requests st @ [UpdateMatchStatus mid status]"
  by (simp add: handleMatchStatus_def Let_def split: option.splits)

text \<open>
  On the page with \<^verbatim>\<open>canRespond\<close>, \<^verbatim>\<open>respondMatch\<close> issues a status update, or changes the
  matches, only when the signed-in user is \<^verbatim>\<open>user_b\<close> of the row it is given and the status of
  that row is pending; the update is the one for this row, to confirmed or to cancelled.
\<close>

lemma respond_only_receiver_pending:
  "(requests (respondMatch me m nxt res st) \<noteq> requests st \<or>
    matches (respondMatch me m nxt res st) \<noteq> matches st) \<longrightarrow>
   (truthy me \<and> m_user_b m = me \<and> m_status m = Some ''pending'' \<and>
    (\<exists>mid. m_id m = Some mid \<and>
       requests (respondMatch me m nxt res st) =
         requests st @ [UpdateMatchStatus mid (Some (answerText nxt))]) \<and>
    (answerText nxt = ''confirmed'' \<or> answerText nxt = ''cancelled''))"
  by (cases nxt; cases me; cases "m_id m")
     (auto simp: respondMatch_def canRespond_def isReceiver_def handleMatchStatus_def Let_def
       split: option.splits)

text \<open>
  The same for a click on an answer button of that page, the row now being the one the
  list holds at the position of the button.
\<close>

lemma respondButton_only_receiver_pending:
  assumes "requests (respondButtonClick me i nxt res st) \<noteq> requests st \<or>
           matches (respondButtonClick me i nxt res st) \<noteq> matches st"
  shows "i < length (matches st) \<and> truthy me \<and> m_user_b (matches st ! i) = me \<and>
         m_status (matches st ! i) = Some ''pending'' \<and>
         (\<exists>mid. m_id (matches st ! i) = Some mid \<and>
            requests (respondButtonClick me i nxt res st) =
              requests st @ [UpdateMatchStatus mid (Some (answerText nxt))])"
proof -
  have in_list: "i < length (matches st)"
    using assms by (auto simp: respondButtonClick_def split: if_splits)
  have eq: "respondButtonClick me i nxt res st = respondMatch me (matches st ! i) nxt res st"
    using assms in_list by (auto simp: respondButtonClick_def Let_def split: if_splits)
  show ?thesis
    using assms in_list respond_only_receiver_pending [of me "matches st ! i" nxt res st]
    unfolding eq by blast
qed

text \<open>
  Claim C5 (the client issues a status update only when the acting user is \<^verbatim>\<open>user_b\<close> of a
  pending match): the older copies of the page break it. There the answer buttons of every
  pending row call \<^verbatim>\<open>handleMatchStatus\<close> directly, so the user who proposed the match
  (\<^verbatim>\<open>user_a\<close>, and not \<^verbatim>\<open>user_b\<close>) issues the update with one click.
\<close>

theorem proposer_answers_on_older_page:
  assumes "i < length (matches st)" and "\<not> busy st"
    and "m_id (matches st ! i) = Some mid"
    and "m_status (matches st ! i) = Some ''pending''"
    and "m_user_a (matches st ! i) = Some u" and "m_user_b (matches st ! i) \<noteq> Some u"
  shows "requests (statusButtonClick (Some u) i nxt res st) =
           requests st @ [UpdateMatchStatus mid (Some (answerText nxt))] \<and>
         respondButtonClick (Some u) i nxt res st = st"
  using assms
  by (simp add: statusButtonClick_def respondButtonClick_def canRespond_def isReceiver_def
      handleMatchStatus_unguarded Let_def)

theorem proposer_answers_on_older_page_witness:
  "requests (statusButtonClick (Some ''u1'') 0 Confirmed
      (ok (matchRow 5 None (Some ''u1'') (Some ''u2'') ''confirmed''))
      (chat0\<lparr>matches := [matchRow 5 None (Some ''u1'') (Some ''u2'') ''pending'']\<rparr>)) =
     [UpdateMatchStatus 5 (Some ''confirmed'')] \<and>
   map m_status (matches (statusButtonClick (Some ''u1'') 0 Confirmed
      (ok (matchRow 5 None (Some ''u1'') (Some ''u2'') ''confirmed''))
      (chat0\<lparr>matches := [matchRow 5 None (Some ''u1'') (Some ''u2'') ''pending'']\<rparr>))) =
     [Some ''confirmed'']"
  using proposer_answers_on_older_page [of 0
      "chat0\<lparr>matches := [matchRow 5 None (Some ''u1'') (Some ''u2'') ''pending'']\<rparr>" 5
      "''u1''" Confirmed "ok (matchRow 5 None (Some ''u1'') (Some ''u2'') ''confirmed'')"]
  by (simp add: statusButtonClick_def handleMatchStatus_def ok_def chat0_def matchRow_def)

section \<open>Order of the lists\<close>


lemma matchesCallback_cases:
  "matchesCallback ckey uid payload prev = prev \<or>
   sorted (map (startKey ckey) (matchesCallback ckey uid payload prev))"
  by (simp add: matchesCallback_def Let_def sorted_sortByStartAt split: option.splits)






lemma matchesCallback_dropped:
  assumes "(case payload_new payload of Some r \<Rightarrow> Some r | None \<Rightarrow> payload_old payload) = Some r"
    and "\<not> involvesMe uid r"
  shows "matchesCallback ckey uid payload prev = prev"
  using assms by (simp add: matchesCallback_def Let_def split: option.splits)








section \<open>Delete notifications on matches\<close>

text \<open>
  Claim C7 (a remote delete notification with a row of id \<open>k\<close> yields the prior list
  without the entity of id \<open>k\<close>): the guard of the handler breaks it. The handler reads the
  participants from \<^verbatim>\<open>payload.new ?? payload.old\<close>; for a DELETE event \<^verbatim>\<open>payload.new\<close> is the
  empty object, which is not null, so the guard looks at a row without participants,
  finds that it does not involve the user and returns before the DELETE branch: the list
  stays as it was, deleted row included.
\<close>

theorem delete_event_is_dropped:
  assumes "eventType payload = DELETE" and "payload_new payload = Some emptyRow"
  shows "matchesCallback ckey uid payload prev = prev"
  using assms by (simp add: matchesCallback_def involvesMe_def emptyRow_def Let_def)

theorem delete_event_is_dropped_witness:
  "map m_id (matchesCallback codeUnits ''u1''
      \<lparr>eventType = DELETE, payload_new = Some emptyRow,
        payload_old = Some (matchRow 1 (Some ''2025-01-01T00:00:00Z'') (Some ''u1'') (Some ''u2'') ''pending'')\<rparr>
      [matchRow 1 (Some ''2025-01-01T00:00:00Z'') (Some ''u1'') (Some ''u2'') ''pending'',
       matchRow 2 (Some ''2025-01-01T01:00:00Z'') (Some ''u3'') (Some ''u1'') ''pending'']) =
     [Some 1, Some 2]"
  using delete_event_is_dropped [of
      "\<lparr>eventType = DELETE, payload_new = Some emptyRow,
        payload_old = Some (matchRow 1 (Some ''2025-01-01T00:00:00Z'') (Some ''u1'') (Some ''u2'') ''pending'')\<rparr>"
      codeUnits "''u1''"
      "[matchRow 1 (Some ''2025-01-01T00:00:00Z'') (Some ''u1'') (Some ''u2'') ''pending'',
       matchRow 2 (Some ''2025-01-01T01:00:00Z'') (Some ''u3'') (Some ''u1'') ''pending'']"]
  by (simp add: matchRow_def)

section \<open>Every listed match involves the signed-in user\<close>

lemma matchesCallback_involves:
  assumes "list_all (involvesMe uid) prev"
  shows "list_all (involvesMe uid) (matchesCallback ckey uid payload prev)"
  using assms
  by (cases "eventType payload")
     (auto simp: matchesCallback_def Let_def list_all_iff set_sortByStartAt split: option.splits)

lemma fetchMatches_involves:
  assumes "list_all (involvesMe uid) (matches st)"
    and "case res_data res of None \<Rightarrow> True | Some rows \<Rightarrow> list_all (involvesMe uid) rows"
  shows "list_all (involvesMe uid) (matches (fetchMatches uid res st))"
  using assms by (simp add: fetchMatches_def Let_def split: option.splits)

lemma proposeAppend_involves:
  assumes "list_all (involvesMe uid) prev" and "involvesMe uid row"
  shows "list_all (involvesMe uid) (proposeAppend ckey row prev)"
  using assms by (simp add: proposeAppend_def list_all_iff set_sortByStartAt)

lemma handleMatchStatus_involves:
  assumes "list_all (involvesMe uid) (matches st)"
    and "case res_data res of None \<Rightarrow> True | Some row \<Rightarrow> involvesMe uid row"
  shows "list_all (involvesMe uid) (matches (handleMatchStatus user matchId status res st))"
  using assms
  by (auto simp: handleMatchStatus_def Let_def list_all_iff split: option.splits)

text \<open>
  Claim C8: every row of the matches list has \<^verbatim>\<open>user_a\<close> or \<^verbatim>\<open>user_b\<close> equal to the signed-in
  user. The fetch asks for the rows of \<open>uid\<close> only and stores what it gets; the realtime
  handler returns the list as it was for an event whose row does not involve \<open>uid\<close>, and
  keeps the property for every event; the two local writes keep it for a returned row
  that involves \<open>uid\<close>.
\<close>

theorem matches_involve_current_user:
  fixes ckey :: "string \<Rightarrow> 'k::linorder"
  assumes "list_all (involvesMe uid) (matches st)"
  shows "requests (fetchMatches uid res st) = requests st @ [SelectMatches uid] \<and>
    ((case res_data res of None \<Rightarrow> True | Some rows \<Rightarrow> list_all (involvesMe uid) rows) \<longrightarrow>
       list_all (involvesMe uid) (matches (fetchMatches uid res st))) \<and>
    ((case payload_new payload of Some r \<Rightarrow> Some r | None \<Rightarrow> payload_old payload) = Some row \<and>
       \<not> involvesMe uid row \<longrightarrow> matchesCallback ckey uid payload prev = prev) \<and>
    list_all (involvesMe uid) (matchesCallback ckey uid payload (matches st)) \<and>
    (involvesMe uid new \<longrightarrow> list_all (involvesMe uid) (proposeAppend ckey new (matches st))) \<and>
    ((case res_data res' of None \<Rightarrow> True | Some upd \<Rightarrow> involvesMe uid upd) \<longrightarrow>
       list_all (involvesMe uid) (matches (handleMatchStatus user matchId status res' st)))"
proof -
  have "requests (fetchMatches uid res st) = requests st @ [SelectMatches uid]"
    by (simp add: fetchMatches_def Let_def split: option.splits)
  then show ?thesis
    using assms fetchMatches_involves [of uid st res]
      matchesCallback_dropped [of payload row uid ckey prev]
      matchesCallback_involves [of uid "matches st" ckey payload]
      proposeAppend_involves [of uid "matches st" new ckey]
      handleMatchStatus_involves [of uid st res' user matchId status]
    by blast
qed

theorem matches_involve_current_user_witness:
  "matchesCallback codeUnits ''u1''
      \<lparr>eventType = INSERT,
        payload_new = Some (matchRow 9 (Some ''2025-01-01T00:00:00Z'') (Some ''u5'') (Some ''u6'') ''pending''),
        payload_old = None\<rparr>
      [matchRow 1 (Some ''2025-01-01T01:00:00Z'') (Some ''u1'') (Some ''u2'') ''pending''] =
     [matchRow 1 (Some ''2025-01-01T01:00:00Z'') (Some ''u1'') (Some ''u2'') ''pending''] \<and>
   list_all (involvesMe ''u1'') (matchesCallback codeUnits ''u1''
      \<lparr>eventType = INSERT,
        payload_new = Some (matchRow 2 (Some ''2025-01-01T00:00:00Z'') (Some ''u3'') (Some ''u1'') ''pending''),
        payload_old = None\<rparr>
      (matches (fetchMatches ''u1''
         (ok [matchRow 1 (Some ''2025-01-01T01:00:00Z'') (Some ''u1'') (Some ''u2'') ''pending''])
         chat0))) \<and>
   requests (fetchMatches ''u1''
      (ok [matchRow 1 (Some ''2025-01-01T01:00:00Z'') (Some ''u1'') (Some ''u2'') ''pending''])
      chat0) = [SelectMatches ''u1'']"
proof -
  let ?m1 = "matchRow 1 (Some ''2025-01-01T01:00:00Z'') (Some ''u1'') (Some ''u2'') ''pending''"
  let ?m2 = "matchRow 2 (Some ''2025-01-01T00:00:00Z'') (Some ''u3'') (Some ''u1'') ''pending''"
  let ?m9 = "matchRow 9 (Some ''2025-01-01T00:00:00Z'') (Some ''u5'') (Some ''u6'') ''pending''"
  let ?st = "fetchMatches ''u1'' (ok [?m1]) chat0"
  have st: "matches ?st = [?m1]"
    by (simp add: fetchMatches_def ok_def)
  have inv: "list_all (involvesMe ''u1'') (matches ?st)"
    by (simp add: st) (simp add: involvesMe_def matchRow_def)
  have a: "(case payload_new \<lparr>eventType = INSERT, payload_new = Some ?m9, payload_old = None\<rparr> of
              Some r \<Rightarrow> Some r
            | None \<Rightarrow> payload_old \<lparr>eventType = INSERT, payload_new = Some ?m9, payload_old = None\<rparr>) =
           Some ?m9 \<and> \<not> involvesMe ''u1'' ?m9"
    by (simp add: involvesMe_def matchRow_def)
  from matches_involve_current_user [OF inv, of "ok [?m1]"
      "\<lparr>eventType = INSERT, payload_new = Some ?m9, payload_old = None\<rparr>" ?m9 codeUnits "[?m1]"] a
  have one: "matchesCallback codeUnits ''u1''
      \<lparr>eventType = INSERT, payload_new = Some ?m9, payload_old = None\<rparr> [?m1] = [?m1]"
    by blast
  from matches_involve_current_user [OF inv, of "ok [?m1]"
      "\<lparr>eventType = INSERT, payload_new = Some ?m2, payload_old = None\<rparr>" ?m9 codeUnits "[?m1]"]
  have two: "list_all (involvesMe ''u1'') (matchesCallback codeUnits ''u1''
      \<lparr>eventType = INSERT, payload_new = Some ?m2, payload_old = None\<rparr> (matches ?st))"
    by blast
  have three: "requests ?st = [SelectMatches ''u1'']"
    by (simp add: fetchMatches_def ok_def chat0_def)
  show ?thesis using one two three by blast
qed

section \<open>The next slot of every listed user: first row wins\<close>

lemma fromEntriesInto_null:
  "fromEntriesInto (map (\<lambda>u. (u, None)) ids) mp u = (if u \<in> set ids then Some None else mp u)"
  by (induction ids arbitrary: mp) auto

lemma fromEntries_null:
  "fromEntries (map (\<lambda>u. (u, None)) ids) u = (if u \<in> set ids then Some None else None)"
  by (simp add: fromEntries_def fromEntriesInto_null)

lemma nextSlotLoop_lookup:
  assumes "u \<noteq> []"
  shows "nextSlotLoop rows mp u =
    (if isNullish (mp u) then
       (case find (\<lambda>r. s_user_id r = Some u) rows of
          None \<Rightarrow> mp u
        | Some r \<Rightarrow> Some (Some (toPublicSlot u r)))
     else mp u)"
  using assms
proof (induction rows arbitrary: mp)
  case Nil
  then show ?case by simp
next
  case (Cons row rows)
  show ?case
  proof (cases "s_user_id row")
    case None
    then show ?thesis using Cons by simp
  next
    case (Some v)
    show ?thesis
    proof (cases "v = []")
      case True
      then show ?thesis using Some Cons by auto
    next
      case False
      then show ?thesis using Some Cons by (auto simp: Let_def split: option.splits)
    qed
  qed
qed

lemma nextSlotLoop_empty_key: "nextSlotLoop rows mp [] = mp []"
  by (induction rows arbitrary: mp) (auto simp: Let_def split: option.splits)

lemma find_first_is_least:
  fixes k :: "'a \<Rightarrow> 'k::linorder"
  assumes "sorted (map k xs)" and "find P xs = Some r" and "r' \<in> set xs" and "P r'"
  shows "k r \<le> k r'"
  using assms by (induction xs) (auto split: if_splits)



text \<open>
  Claim C9 as stated (every input user id is bound to that user's earliest fetched slot,
  or to null when the user has none) fails for the empty string as an id: the loop skips
  an empty \<^verbatim>\<open>user_id\<close> as it skips null, so the id stays bound to null although a fetched
  row carries it.
\<close>

theorem nextSlot_empty_id_counterexample:
  "nextSlotMap (fetchNextSlotsForUsers [[]]
      (ok [slotRow (Some []) ''2025-01-01T00:00:00Z'']) chat0) [] = Some None \<and>
   s_user_id (slotRow (Some []) ''2025-01-01T00:00:00Z'') = Some []"
  by (simp add: fetchNextSlotsForUsers_def ok_def fromEntries_def slotRow_def Let_def)

text \<open>
  Claim C9, amended: for a successful fetch, every non-empty input user id is bound to the
  first fetched row of that user, or to null when no fetched row is that user's; when the
  rows are sorted ascending by \<^verbatim>\<open>start_at\<close>, that first row has the least \<^verbatim>\<open>start_at\<close> among
  the user's rows. A row whose \<^verbatim>\<open>user_id\<close> is null or empty is skipped and binds nothing,
  so an empty id in the input stays bound to null.
\<close>

theorem nextSlot_binds_first_row:
  fixes tkey :: "string \<Rightarrow> 'k::linorder"
  assumes "res_error res = None" and "res_data res = Some rows"
    and "u \<in> set userIds" and "u \<noteq> []"
  shows "nextSlotMap (fetchNextSlotsForUsers userIds res st) u =
           Some (map_option (toPublicSlot u) (find (\<lambda>r. s_user_id r = Some u) rows)) \<and>
         (sorted (map (\<lambda>r. tkey (s_start_at r)) rows) \<and>
          find (\<lambda>r. s_user_id r = Some u) rows = Some r \<and>
          r' \<in> set rows \<and> s_user_id r' = Some u \<longrightarrow>
            tkey (s_start_at r) \<le> tkey (s_start_at r')) \<and>
         (s_user_id row = None \<or> s_user_id row = Some [] \<longrightarrow>
            nextSlotLoop (row # rest) mp = nextSlotLoop rest mp) \<and>
         ([] \<in> set userIds \<longrightarrow>
            nextSlotMap (fetchNextSlotsForUsers userIds res st) [] = Some None)"
proof -
  have ne: "userIds \<noteq> []" using assms(3) by auto
  have "nextSlotMap (fetchNextSlotsForUsers userIds res st) u =
          nextSlotLoop rows (fromEntries (map (\<lambda>u. (u, None)) userIds)) u"
    using assms(1,2) ne by (simp add: fetchNextSlotsForUsers_def Let_def)
  also have "\<dots> = Some (map_option (toPublicSlot u) (find (\<lambda>r. s_user_id r = Some u) rows))"
    using assms(3,4) by (simp add: nextSlotLoop_lookup fromEntries_null split: option.splits)
  finally have first: "nextSlotMap (fetchNextSlotsForUsers userIds res st) u =
      Some (map_option (toPublicSlot u) (find (\<lambda>r. s_user_id r = Some u) rows))" .
  have least: "tkey (s_start_at r) \<le> tkey (s_start_at r')"
    if "sorted (map (\<lambda>r. tkey (s_start_at r)) rows)"
      and "find (\<lambda>r. s_user_id r = Some u) rows = Some r"
      and "r' \<in> set rows" and "s_user_id r' = Some u"
    using find_first_is_least [of "\<lambda>r. tkey (s_start_at r)" rows "\<lambda>r. s_user_id r = Some u" r r']
      that by simp
  have skip: "nextSlotLoop (row # rest) mp = nextSlotLoop rest mp"
    if "s_user_id row = None \<or> s_user_id row = Some []"
    using that by (auto simp: Let_def)
  have empty: "nextSlotMap (fetchNextSlotsForUsers userIds res st) [] = Some None"
    if "[] \<in> set userIds"
    using that assms(1,2) ne
    by (simp add: fetchNextSlotsForUsers_def Let_def nextSlotLoop_empty_key fromEntries_null)
  show ?thesis using first least skip empty by blast
qed

theorem nextSlot_binds_first_row_witness:
  "nextSlotMap (fetchNextSlotsForUsers [''u2'', ''u3'']
      (ok [slotRow None ''2025-01-01T00:00:00Z'', slotRow (Some ''u2'') ''2025-01-01T00:00:00Z'',
           slotRow (Some ''u2'') ''2025-01-01T01:00:00Z'']) chat0) ''u2'' =
     Some (Some (toPublicSlot ''u2'' (slotRow (Some ''u2'') ''2025-01-01T00:00:00Z''))) \<and>
   nextSlotMap (fetchNextSlotsForUsers [''u2'', ''u3'']
      (ok [slotRow None ''2025-01-01T00:00:00Z'', slotRow (Some ''u2'') ''2025-01-01T00:00:00Z'',
           slotRow (Some ''u2'') ''2025-01-01T01:00:00Z'']) chat0) ''u3'' = Some None"
proof -
  let ?rows = "[slotRow None ''2025-01-01T00:00:00Z'', slotRow (Some ''u2'') ''2025-01-01T00:00:00Z'',
           slotRow (Some ''u2'') ''2025-01-01T01:00:00Z'']"
  have e: "res_error (ok ?rows) = None" and d: "res_data (ok ?rows) = Some ?rows"
    by (simp_all add: ok_def)
  have f2: "find (\<lambda>r. s_user_id r = Some ''u2'') ?rows =
      Some (slotRow (Some ''u2'') ''2025-01-01T00:00:00Z'')"
    by (simp add: slotRow_def)
  have f3: "find (\<lambda>r. s_user_id r = Some ''u3'') ?rows = None"
    by (simp add: slotRow_def)
  have "nextSlotMap (fetchNextSlotsForUsers [''u2'', ''u3''] (ok ?rows) chat0) ''u2'' =
      Some (map_option (toPublicSlot ''u2'') (find (\<lambda>r. s_user_id r = Some ''u2'') ?rows))"
    using nextSlot_binds_first_row [OF e d, of "''u2''" "[''u2'', ''u3'']" chat0 codeUnits]
    by simp
  moreover have "nextSlotMap (fetchNextSlotsForUsers [''u2'', ''u3''] (ok ?rows) chat0) ''u3'' =
      Some (map_option (toPublicSlot ''u3'') (find (\<lambda>r. s_user_id r = Some ''u3'') ?rows))"
    using nextSlot_binds_first_row [OF e d, of "''u3''" "[''u2'', ''u3'']" chat0 codeUnits]
    by simp
  ultimately show ?thesis by (simp only: f2 f3 option.map)
qed

section \<open>Overlap and intersection\<close>

lemma ivl_inter_iff:
  fixes a1 a2 b1 b2 :: int
  assumes "a1 < a2" and "b1 < b2"
  shows "({a1..<a2} \<inter> {b1..<b2} \<noteq> {}) = (a1 < b2 \<and> b1 < a2)"
proof -
  have "max a1 b1 \<in> {a1..<a2} \<inter> {b1..<b2}" if "a1 < b2 \<and> b1 < a2"
    using that assms by auto
  moreover have "a1 < b2 \<and> b1 < a2" if "t \<in> {a1..<a2} \<inter> {b1..<b2}" for t
    using that by auto
  ultimately show ?thesis by blast
qed

text \<open>
  Claim C10 as stated (\<^verbatim>\<open>hasOverlap\<close> is true exactly when the two half-open intervals
  intersect) fails for an empty interval: with start and end both at 01:00 the first
  interval has no instant, yet \<^verbatim>\<open>hasOverlap\<close> against 00:00 to 02:00 is true.
\<close>

theorem hasOverlap_degenerate_counterexample:
  "hasOverlap sampleTime ''2025-01-01T01:00:00Z'' ''2025-01-01T01:00:00Z''
      ''2025-01-01T00:00:00Z'' ''2025-01-01T02:00:00Z'' \<and>
   sampleTime ''2025-01-01T01:00:00Z'' = Some 1735693200000 \<and>
   sampleTime ''2025-01-01T00:00:00Z'' = Some 1735689600000 \<and>
   sampleTime ''2025-01-01T02:00:00Z'' = Some 1735696800000 \<and>
   {1735693200000..<1735693200000::int} \<inter> {1735689600000..<1735696800000} = {}"
  by (simp add: hasOverlap_def sampleTime_def)

text \<open>
  Claim C10, amended: \<^verbatim>\<open>hasOverlap\<close> is commutative in its two intervals for all inputs, and
  equals \<^verbatim>\<open>aStart < bEnd && bStart < aEnd\<close> on the parsed times (false when one of them is no
  date); when the four strings are dates and both intervals are non-empty (start before
  end), it is true exactly when the half-open intervals intersect.
\<close>

theorem hasOverlap_intersect:
  "hasOverlap getTime aStart aEnd bStart bEnd = hasOverlap getTime bStart bEnd aStart aEnd \<and>
   hasOverlap getTime aStart aEnd bStart bEnd =
     (numLess (getTime aStart) (getTime bEnd) \<and> numLess (getTime bStart) (getTime aEnd)) \<and>
   (getTime aStart = Some a1 \<and> getTime aEnd = Some a2 \<and> getTime bStart = Some b1 \<and>
    getTime bEnd = Some b2 \<and> a1 < a2 \<and> b1 < b2 \<longrightarrow>
      hasOverlap getTime aStart aEnd bStart bEnd = ({a1..<a2} \<inter> {b1..<b2} \<noteq> {}))"
  using ivl_inter_iff [of a1 a2 b1 b2] by (auto simp: hasOverlap_def)

theorem hasOverlap_intersect_witness:
  "hasOverlap sampleTime ''2025-01-01T00:00:00Z'' ''2025-01-01T02:00:00Z''
      ''2025-01-01T01:00:00Z'' ''2025-01-01T02:00:00Z'' \<and>
   {1735689600000..<1735696800000::int} \<inter> {1735693200000..<1735696800000} \<noteq> {} \<and>
   \<not> hasOverlap sampleTime ''2025-01-01T00:00:00Z'' ''2025-01-01T01:00:00Z''
      ''2025-01-01T01:00:00Z'' ''2025-01-01T02:00:00Z'' \<and>
   {1735689600000..<1735693200000::int} \<inter> {1735693200000..<1735696800000} = {}"
proof -
  have t: "sampleTime ''2025-01-01T00:00:00Z'' = Some 1735689600000"
    "sampleTime ''2025-01-01T01:00:00Z'' = Some 1735693200000"
    "sampleTime ''2025-01-01T02:00:00Z'' = Some 1735696800000"
    by (simp_all add: sampleTime_def)
  have h1: "hasOverlap sampleTime ''2025-01-01T00:00:00Z'' ''2025-01-01T02:00:00Z''
      ''2025-01-01T01:00:00Z'' ''2025-01-01T02:00:00Z''"
    by (simp add: hasOverlap_def t)
  have h2: "\<not> hasOverlap sampleTime ''2025-01-01T00:00:00Z'' ''2025-01-01T01:00:00Z''
      ''2025-01-01T01:00:00Z'' ''2025-01-01T02:00:00Z''"
    by (simp add: hasOverlap_def t)
  from hasOverlap_intersect [of sampleTime "''2025-01-01T00:00:00Z''" "''2025-01-01T02:00:00Z''"
      "''2025-01-01T01:00:00Z''" "''2025-01-01T02:00:00Z''"
      1735689600000 1735696800000 1735693200000 1735696800000] t h1
  have i1: "{1735689600000..<1735696800000::int} \<inter> {1735693200000..<1735696800000} \<noteq> {}"
    by simp
  from hasOverlap_intersect [of sampleTime "''2025-01-01T00:00:00Z''" "''2025-01-01T01:00:00Z''"
      "''2025-01-01T01:00:00Z''" "''2025-01-01T02:00:00Z''"
      1735689600000 1735693200000 1735693200000 1735696800000] t h2
  have i2: "{1735689600000..<1735693200000::int} \<inter> {1735693200000..<1735696800000} = {}"
    by simp
  show ?thesis using h1 h2 i1 i2 by blast
qed

end
